theory Spec2Isabelle
  imports Main "HOL-Library.AList"
begin

section \<open>The resource queue of cracklord (resource/resource.go)\<close>

text \<open>
  The file \<^verbatim>\<open>resource.go\<close> holds the type \<^verbatim>\<open>Queue\<close> and its methods: the registration
  of tools (\<^verbatim>\<open>AddTool\<close>) and the remote procedures \<^verbatim>\<open>ResourceHardware\<close>, \<^verbatim>\<open>ResourceTools\<close>,
  \<^verbatim>\<open>AddTask\<close>, \<^verbatim>\<open>TaskStatus\<close>, \<^verbatim>\<open>TaskPause\<close>, \<^verbatim>\<open>TaskRun\<close>, \<^verbatim>\<open>TaskQuit\<close> and
  \<^verbatim>\<open>AllTaskStatus\<close>. Each method is embedded as a function from the queue before the call
  to the outcome of the call and the queue after it. One call runs at a time; the
  read/write mutex is part of the state, so that a lock which a call leaves held is seen
  by the next call. \<^verbatim>\<open>StartResource\<close>, which serves the queue on a network connection, is
  outside the model.
\<close>

subsection \<open>Types of package common\<close>

text \<open>
  Modelled from the spec: the types \<^verbatim>\<open>common.Job\<close>, \<^verbatim>\<open>common.RPCCall\<close> and \<^verbatim>\<open>common.Tool\<close>
  are declared in package \<^verbatim>\<open>common\<close>, outside \<^verbatim>\<open>resource.go\<close>. The source reads the fields
  \<^verbatim>\<open>Job.UUID\<close>, \<^verbatim>\<open>Job.ToolUUID\<close>, \<^verbatim>\<open>RPCCall.Auth\<close>, \<^verbatim>\<open>RPCCall.Job\<close> and writes the six fields
  of \<^verbatim>\<open>Tool\<close>; the remaining fields of a Job (status, parameters, result payload) follow
  the data model of the specification.
\<close>

record job =
  UUID :: string
  ToolUUID :: string
  Job_Status :: string
  Job_Parameters :: "(string \<times> string) list"
  Job_Output :: "(string \<times> string) list"

record RPCCall =
  Auth :: string
  Job :: job

record Tool =
  Tool_Name :: string
  Tool_Type :: string
  Tool_Version :: string
  Tool_UUID :: string
  Tool_Parameters :: string
  Tool_Requirements :: string

text \<open>
  A Go \<^verbatim>\<open>error\<close> is \<^verbatim>\<open>nil\<close> (\<open>None\<close>) or carries a message (\<open>Some msg\<close>), the text that
  \<^verbatim>\<open>err.Error()\<close> returns.
\<close>

type_synonym error = "string option"

text \<open>
  Modelled from the spec: the interface \<^verbatim>\<open>common.Tasker\<close>, with the methods
  \<^verbatim>\<open>Status() Job\<close>, \<^verbatim>\<open>Run() error\<close>, \<^verbatim>\<open>Pause() error\<close> and \<^verbatim>\<open>Quit() Job\<close> that the source
  calls. A Tasker is an object with hidden state: each method returns its result together
  with the object as it is after the call. Any behaviour is an inhabitant of the type.
\<close>

codatatype tasker =
  Tasker (Status: "job \<times> tasker") (Run: "error \<times> tasker")
    (Pause: "error \<times> tasker") (Quit: "job \<times> tasker")

text \<open>
  Modelled from the spec: the interface \<^verbatim>\<open>common.Tooler\<close>. Its getters are fields,
  \<^verbatim>\<open>SetUUID\<close> is the update of the field \<open>Tooler_UUID\<close>, and the factory \<^verbatim>\<open>NewTask\<close> returns
  the Go pair \<^verbatim>\<open>(Tasker, error)\<close>, where the Tasker may be \<^verbatim>\<open>nil\<close> (\<open>None\<close>).
\<close>

record Tooler =
  Name :: string
  Type :: string
  Version :: string
  Tooler_UUID :: string
  Parameters :: string
  Requirements :: string
  NewTask :: "job \<Rightarrow> tasker option \<times> error"

subsection \<open>Go maps\<close>

text \<open>
  A Go map is \<^verbatim>\<open>nil\<close> (\<open>None\<close>) or a table with one entry per key, kept as an association
  list that \<open>AList.update\<close> and \<open>AList.delete\<close> maintain. Reading, ranging over and
  deleting from a \<^verbatim>\<open>nil\<close> map behave as on an empty map; assigning into a \<^verbatim>\<open>nil\<close> map
  panics. The order of the list stands for one of the iteration orders that Go leaves
  unspecified.
\<close>

type_synonym ('k, 'v) gomap = "('k \<times> 'v) list option"

definition entries :: "('k, 'v) gomap \<Rightarrow> ('k \<times> 'v) list" where
  "entries m = (case m of None \<Rightarrow> [] | Some al \<Rightarrow> al)"

definition index :: "('k, 'v) gomap \<Rightarrow> 'k \<Rightarrow> 'v option" where
  \<comment> \<open>\<^verbatim>\<open>v, ok := m[k]\<close>: \<open>None\<close> when \<^verbatim>\<open>ok\<close> is false (and \<^verbatim>\<open>v\<close> is the zero value).\<close>
  "index m k = map_of (entries m) k"

definition keys :: "('k, 'v) gomap \<Rightarrow> 'k set" where
  "keys m = fst ` set (entries m)"

definition assign :: "('k, 'v) gomap \<Rightarrow> 'k \<Rightarrow> 'v \<Rightarrow> ('k, 'v) gomap option" where
  \<comment> \<open>\<^verbatim>\<open>m[k] = v\<close>: \<open>None\<close> is the panic of an assignment into a \<^verbatim>\<open>nil\<close> map.\<close>
  "assign m k v = (case m of None \<Rightarrow> None | Some al \<Rightarrow> Some (Some (AList.update k v al)))"

definition delete_key :: "('k, 'v) gomap \<Rightarrow> 'k \<Rightarrow> ('k, 'v) gomap" where
  \<comment> \<open>\<^verbatim>\<open>delete(m, k)\<close>, a no-op on a \<^verbatim>\<open>nil\<close> map\<close>
  "delete_key m k = (case m of None \<Rightarrow> None | Some al \<Rightarrow> Some (AList.delete k al))"

subsection \<open>The queue\<close>

definition ERROR_AUTH :: string where
  "ERROR_AUTH = ''Call to resource did not have the proper authentication token.''"

definition ERROR_NO_TOOL :: string where
  "ERROR_NO_TOOL = ''Tool specified does not exit.''"

text \<open>
  The calls that the queue makes on its collaborators, in the order in which it makes
  them: the factory of the tool at an index of \<^verbatim>\<open>q.tools\<close>, and the methods of the Tasker
  stored under a key of \<^verbatim>\<open>q.stack\<close>.
\<close>

datatype call =
  NewTask_call nat
  | Status_call string
  | Run_call string
  | Pause_call string
  | Quit_call string

text \<open>
  The struct \<^verbatim>\<open>Queue\<close>. The embedded \<^verbatim>\<open>sync.RWMutex\<close> is the pair of \<open>readers\<close> (the number
  of read locks held) and \<open>writer\<close> (the write lock is held). The field \<open>calls\<close> is not a
  field of the struct: it logs the calls on collaborators, so that theorems can say which
  methods a procedure invoked.
\<close>

record Queue =
  stack :: "(string, tasker) gomap"
  tools :: "Tooler list"
  readers :: nat
  writer :: bool
  authToken :: string
  hardware :: "(string, bool) gomap"
  calls :: "call list"

text \<open>
  A lock that cannot be taken makes the caller wait; with one call running at a time
  nobody releases it, and the call never returns (\<open>None\<close>).
\<close>

definition RLock :: "Queue \<Rightarrow> Queue option" where
  "RLock q = (if writer q then None else Some (q\<lparr>readers := readers q + 1\<rparr>))"

definition RUnlock :: "Queue \<Rightarrow> Queue" where
  "RUnlock q = q\<lparr>readers := readers q - 1\<rparr>"

definition Lock :: "Queue \<Rightarrow> Queue option" where
  "Lock q = (if writer q \<or> 0 < readers q then None else Some (q\<lparr>writer := True\<rparr>))"

definition Unlock :: "Queue \<Rightarrow> Queue" where
  "Unlock q = q\<lparr>writer := False\<rparr>"

definition mutex_free :: "Queue \<Rightarrow> bool" where
  "mutex_free q = (readers q = 0 \<and> writer q = False)"

text \<open>
  What a remote procedure does: it writes its reply and returns \<^verbatim>\<open>nil\<close> (\<open>Replied\<close>), it
  returns an error and leaves the reply unwritten (\<open>Failed\<close>, with the message), it panics
  on a method call through a \<^verbatim>\<open>nil\<close> interface (\<open>Panicked\<close>), or it waits for the mutex and
  never returns (\<open>Blocked\<close>).
\<close>

datatype 'a outcome = Replied 'a | Failed string | Panicked | Blocked

definition NewResourceQueue :: "string \<Rightarrow> Queue" where
  "NewResourceQueue token =
     \<lparr>stack = Some [], tools = [], readers = 0, writer = False, authToken = token,
      hardware = Some [], calls = []\<rparr>"

text \<open>
  \<^verbatim>\<open>AddTool\<close>. The identifier that \<^verbatim>\<open>uuid.New()\<close> generates is the argument \<open>fresh\<close>. The
  result \<open>None\<close> is the panic of the assignment when \<^verbatim>\<open>q.hardware\<close> is \<^verbatim>\<open>nil\<close>.
\<close>

definition AddTool :: "Queue \<Rightarrow> Tooler \<Rightarrow> string \<Rightarrow> Queue option" where
  "AddTool q tooler fresh =
     (case assign (hardware q) (Requirements tooler) True of
        None \<Rightarrow> None
      | Some hw \<Rightarrow>
          Some (q\<lparr>hardware := hw, tools := tools q @ [tooler\<lparr>Tooler_UUID := fresh\<rparr>]\<rparr>))"

text \<open>Registering a sequence of tools, each with its generated identifier, in order.\<close>

fun AddTools :: "Queue \<Rightarrow> (Tooler \<times> string) list \<Rightarrow> Queue option" where
  "AddTools q [] = Some q"
| "AddTools q ((tooler, fresh) # rest) =
     (case AddTool q tooler fresh of None \<Rightarrow> None | Some q' \<Rightarrow> AddTools q' rest)"

definition ResourceHardware :: "Queue \<Rightarrow> RPCCall \<Rightarrow> (string, bool) gomap outcome \<times> Queue" where
  "ResourceHardware q rpc =
     (if Auth rpc \<noteq> authToken q then (Failed ERROR_AUTH, q)
      else case RLock q of
        None \<Rightarrow> (Blocked, q)
      | Some q1 \<Rightarrow> (Replied (hardware q1), RUnlock q1))"

text \<open>
  A method call on \<^verbatim>\<open>q.stack[k]\<close>. The lookup of a missing key gives the \<^verbatim>\<open>nil\<close> Tasker,
  and the method call through it panics (\<open>None\<close>). Otherwise the method runs on the stored
  object, which is the same object afterwards, in its new state.
\<close>

definition invoke ::
  "(tasker \<Rightarrow> 'r \<times> tasker) \<Rightarrow> (string \<Rightarrow> call) \<Rightarrow> Queue \<Rightarrow> string \<Rightarrow> ('r \<times> Queue) option" where
  "invoke method ev q k =
     (case index (stack q) k of
        None \<Rightarrow> None
      | Some t \<Rightarrow>
          (case method t of
             (r, t') \<Rightarrow>
               Some (r, q\<lparr>stack := Some (AList.update k t' (entries (stack q))),
                          calls := calls q @ [ev k]\<rparr>)))"

text \<open>
  The loop of \<^verbatim>\<open>AddTask\<close> over \<^verbatim>\<open>q.tools\<close>, from index \<open>i\<close>, with the current value of the
  variable \<^verbatim>\<open>tasker\<close>. There is no \<^verbatim>\<open>break\<close>: every tool whose identifier matches has its
  factory called, and each call overwrites \<^verbatim>\<open>tasker\<close>. A factory error returns from
  \<^verbatim>\<open>AddTask\<close> at once (\<open>Inl\<close>). The second component lists the factory calls made.
\<close>

fun scan_tools ::
  "Tooler list \<Rightarrow> nat \<Rightarrow> job \<Rightarrow> tasker option \<Rightarrow> (string + tasker option) \<times> call list" where
  "scan_tools [] i j tasker = (Inr tasker, [])"
| "scan_tools (t # ts) i j tasker =
     (if Tooler_UUID t = ToolUUID j then
        (case NewTask t j of
           (tk, Some e) \<Rightarrow> (Inl e, [NewTask_call i])
         | (tk, None) \<Rightarrow>
             (case scan_tools ts (Suc i) j tk of (r, log) \<Rightarrow> (r, NewTask_call i # log)))
      else scan_tools ts (Suc i) j tasker)"

definition AddTask :: "Queue \<Rightarrow> RPCCall \<Rightarrow> job outcome \<times> Queue" where
  "AddTask q rpc =
     (if Auth rpc \<noteq> authToken q then (Failed ERROR_AUTH, q)
      else case RLock q of
        None \<Rightarrow> (Blocked, q)
      | Some q1 \<Rightarrow>
          (case scan_tools (tools q1) 0 (Job rpc) None of
             (Inl e, log) \<Rightarrow> (Failed e, q1\<lparr>calls := calls q1 @ log\<rparr>)
           | (Inr tasker, log) \<Rightarrow>
               (let q2 = RUnlock (q1\<lparr>calls := calls q1 @ log\<rparr>) in
                case tasker of
                  None \<Rightarrow> (Failed ERROR_NO_TOOL, q2)
                | Some tk \<Rightarrow>
                    (case Lock q2 of
                       None \<Rightarrow> (Blocked, q2)
                     | Some q3 \<Rightarrow>
                         (let q4 = (case stack q3 of
                                      None \<Rightarrow> q3\<lparr>stack := Some []\<rparr>
                                    | Some al \<Rightarrow> q3);
                              q5 = q4\<lparr>stack :=
                                        Some (AList.update (UUID (Job rpc)) tk (entries (stack q4)))\<rparr>
                          in case invoke Run Run_call q5 (UUID (Job rpc)) of
                               None \<Rightarrow> (Panicked, q5)
                             | Some (Some e, q6) \<Rightarrow>
                                 (Failed (''Error starting task on the resource: '' @ e), q6)
                             | Some (None, q6) \<Rightarrow>
                                 (case invoke Status Status_call q6 (UUID (Job rpc)) of
                                    None \<Rightarrow> (Panicked, q6)
                                  | Some (j, q7) \<Rightarrow> (Replied j, Unlock q7)))))))"

text \<open>
  In the four procedures on one task the statement after the lookup,
  \<^verbatim>\<open>if ok != false { errors.New("Task with UUID provided does not exist.") }\<close> (\<^verbatim>\<open>if ok\<close> in
  \<^verbatim>\<open>TaskPause\<close>), builds an error value and drops it: it has no effect and no \<^verbatim>\<open>return\<close>,
  whatever \<^verbatim>\<open>ok\<close> is. The procedure goes on to the method call on \<^verbatim>\<open>q.stack[rpc.Job.UUID]\<close>.
\<close>

definition TaskStatus :: "Queue \<Rightarrow> RPCCall \<Rightarrow> job outcome \<times> Queue" where
  "TaskStatus q rpc =
     (if Auth rpc \<noteq> authToken q then (Failed ERROR_AUTH, q)
      else case Lock q of
        None \<Rightarrow> (Blocked, q)
      | Some q1 \<Rightarrow>
          (case invoke Status Status_call q1 (UUID (Job rpc)) of
             None \<Rightarrow> (Panicked, q1)
           | Some (j, q2) \<Rightarrow> (Replied j, Unlock q2)))"

definition TaskPause :: "Queue \<Rightarrow> RPCCall \<Rightarrow> job outcome \<times> Queue" where
  "TaskPause q rpc =
     (if Auth rpc \<noteq> authToken q then (Failed ERROR_AUTH, q)
      else case Lock q of
        None \<Rightarrow> (Blocked, q)
      | Some q1 \<Rightarrow>
          (case invoke Pause Pause_call q1 (UUID (Job rpc)) of
             None \<Rightarrow> (Panicked, q1)
           | Some (Some e, q2) \<Rightarrow>
               (case invoke Quit Quit_call q2 (UUID (Job rpc)) of
                  None \<Rightarrow> (Panicked, q2)
                | Some (final, q3) \<Rightarrow> (Failed e, q3))
           | Some (None, q2) \<Rightarrow>
               (case invoke Status Status_call q2 (UUID (Job rpc)) of
                  None \<Rightarrow> (Panicked, q2)
                | Some (j, q3) \<Rightarrow> (Replied j, Unlock q3))))"

definition TaskRun :: "Queue \<Rightarrow> RPCCall \<Rightarrow> job outcome \<times> Queue" where
  "TaskRun q rpc =
     (if Auth rpc \<noteq> authToken q then (Failed ERROR_AUTH, q)
      else case Lock q of
        None \<Rightarrow> (Blocked, q)
      | Some q1 \<Rightarrow>
          (case invoke Run Run_call q1 (UUID (Job rpc)) of
             None \<Rightarrow> (Panicked, q1)
           | Some (Some e, q2) \<Rightarrow> (Failed e, q2)
           | Some (None, q2) \<Rightarrow>
               (case invoke Status Status_call q2 (UUID (Job rpc)) of
                  None \<Rightarrow> (Panicked, q2)
                | Some (j, q3) \<Rightarrow> (Replied j, Unlock q3))))"

definition TaskQuit :: "Queue \<Rightarrow> RPCCall \<Rightarrow> job outcome \<times> Queue" where
  "TaskQuit q rpc =
     (if Auth rpc \<noteq> authToken q then (Failed ERROR_AUTH, q)
      else case Lock q of
        None \<Rightarrow> (Blocked, q)
      | Some q1 \<Rightarrow>
          (case invoke Quit Quit_call q1 (UUID (Job rpc)) of
             None \<Rightarrow> (Panicked, q1)
           | Some (j, q2) \<Rightarrow>
               (Replied j, Unlock (q2\<lparr>stack := delete_key (stack q2) (UUID (Job rpc))\<rparr>))))"

text \<open>\<^verbatim>\<open>ResourceTools\<close> copies the static fields of every registered tool. It reads no token.\<close>

definition describe :: "Tooler \<Rightarrow> Tool" where
  "describe t =
     \<lparr>Tool_Name = Name t, Tool_Type = Type t, Tool_Version = Version t,
      Tool_UUID = Tooler_UUID t, Tool_Parameters = Parameters t,
      Tool_Requirements = Requirements t\<rparr>"

definition ResourceTools :: "Queue \<Rightarrow> RPCCall \<Rightarrow> Tool list outcome \<times> Queue" where
  "ResourceTools q rpc =
     (case RLock q of
        None \<Rightarrow> (Blocked, q)
      | Some q1 \<Rightarrow> (Replied (map describe (tools q1)), RUnlock q1))"

text \<open>
  The loop of \<^verbatim>\<open>AllTaskStatus\<close> over the keys of \<^verbatim>\<open>q.stack\<close>: the status of each stored
  task is appended to \<^verbatim>\<open>jobs\<close>.
\<close>

fun status_loop :: "string list \<Rightarrow> Queue \<Rightarrow> job list \<Rightarrow> (job list \<times> Queue) option" where
  "status_loop [] q jobs = Some (jobs, q)"
| "status_loop (k # ks) q jobs =
     (case invoke Status Status_call q k of
        None \<Rightarrow> None
      | Some (j, q') \<Rightarrow> status_loop ks q' (jobs @ [j]))"

definition AllTaskStatus :: "Queue \<Rightarrow> RPCCall \<Rightarrow> job list outcome \<times> Queue" where
  "AllTaskStatus q rpc =
     (if Auth rpc \<noteq> authToken q then (Failed ERROR_AUTH, q)
      else case Lock q of
        None \<Rightarrow> (Blocked, q)
      | Some q1 \<Rightarrow>
          (case status_loop (map fst (entries (stack q1))) q1 [] of
             None \<Rightarrow> (Panicked, q1)
           | Some (jobs, q2) \<Rightarrow> (Replied jobs, Unlock q2)))"

subsection \<open>The capability table after a sequence of registrations\<close>

text \<open>
  Each registration assigns \<^verbatim>\<open>true\<close> under the tool's requirement tag; \<open>tags_of regs al\<close> is
  the table \<open>al\<close> after the registrations \<open>regs\<close>.
\<close>

definition tags_of :: "(Tooler \<times> string) list \<Rightarrow> (string \<times> bool) list \<Rightarrow> (string \<times> bool) list" where
  "tags_of regs al = fold (\<lambda>reg. AList.update (Requirements (fst reg)) True) regs al"

subsection \<open>Example objects\<close>

text \<open>
  A task that reports the Job it holds; starting, pausing and quitting set the status of
  that Job, and starting and pausing return the errors given as \<open>run_err\<close> and
  \<open>pause_err\<close>.
\<close>

primcorec demo_task :: "error \<Rightarrow> error \<Rightarrow> job \<Rightarrow> tasker" where
  "demo_task run_err pause_err j =
     Tasker (j, demo_task run_err pause_err j)
       (run_err, demo_task run_err pause_err (j\<lparr>Job_Status := ''running''\<rparr>))
       (pause_err, demo_task run_err pause_err (j\<lparr>Job_Status := ''paused''\<rparr>))
       (j\<lparr>Job_Status := ''quit''\<rparr>, demo_task run_err pause_err (j\<lparr>Job_Status := ''quit''\<rparr>))"

text \<open>
  A tool whose factory always succeeds; the Job of the task it creates names the tool in
  its result payload.
\<close>

definition demo_tool :: "string \<Rightarrow> string \<Rightarrow> string \<Rightarrow> error \<Rightarrow> error \<Rightarrow> Tooler" where
  "demo_tool name ident req run_err pause_err =
     \<lparr>Name = name, Type = ''demo'', Version = ''1'', Tooler_UUID = ident, Parameters = [],
      Requirements = req,
      NewTask = (\<lambda>j. (Some (demo_task run_err pause_err (j\<lparr>Job_Output := [(''tool'', name)]\<rparr>)), None))\<rparr>"

definition demo_job :: "string \<Rightarrow> string \<Rightarrow> job" where
  "demo_job task tool =
     \<lparr>UUID = task, ToolUUID = tool, Job_Status = ''new'', Job_Parameters = [], Job_Output = []\<rparr>"

definition demo_call :: "string \<Rightarrow> string \<Rightarrow> string \<Rightarrow> RPCCall" where
  "demo_call token task tool = \<lparr>Auth = token, Job = demo_job task tool\<rparr>"

text \<open>
  A node is a queue made by \<^verbatim>\<open>NewResourceQueue\<close> on which tools have been registered.
  \<open>demo_node\<close> has three tools: one that works, one whose tasks cannot pause and one
  whose tasks cannot start. \<open>busy_node\<close> is \<open>demo_node\<close> after a task \<open>J2\<close> of the second
  tool has been added. On \<open>dup_node\<close> two tools carry the same identifier.
\<close>

definition node :: "string \<Rightarrow> (Tooler \<times> string) list \<Rightarrow> Queue" where
  "node token regs =
     (case AddTools (NewResourceQueue token) regs of
        None \<Rightarrow> NewResourceQueue token
      | Some q \<Rightarrow> q)"

definition demo_regs :: "(Tooler \<times> string) list" where
  "demo_regs =
     [(demo_tool ''hashcat'' [] ''gpu'' None None, ''T1''),
      (demo_tool ''john'' [] ''cpu'' None (Some ''cannot pause''), ''T2''),
      (demo_tool ''oclhashcat'' [] ''gpu'' (Some ''no device'') None, ''T3'')]"

definition demo_node :: Queue where
  "demo_node = node ''secret'' demo_regs"

definition busy_node :: Queue where
  "busy_node = snd (AddTask demo_node (demo_call ''secret'' ''J2'' ''T2''))"



section \<open>Lemmas on the model\<close>

subsection \<open>The mutex, Go maps and method calls on stored tasks\<close>


lemma Lock_Some: "mutex_free q \<Longrightarrow> Lock q = Some (q\<lparr>writer := True\<rparr>)"
  by (simp add: Lock_def mutex_free_def)


lemma invoke_Some:
  "index (stack q) k = Some t \<Longrightarrow>
   invoke method ev q k =
     Some (fst (method t),
           q\<lparr>stack := Some (AList.update k (snd (method t)) (entries (stack q))),
              calls := calls q @ [ev k]\<rparr>)"
  by (simp add: invoke_def split: prod.splits)

lemma invoke_None: "index (stack q) k = None \<Longrightarrow> invoke method ev q k = None"
  by (simp add: invoke_def)

lemma index_update: "index (Some (AList.update k v al)) k' = (if k' = k then Some v else map_of al k')"
  by (simp add: index_def entries_def update_conv')


















lemma AddTask_store:
  assumes "Auth rpc = authToken q" and "RLock q = Some q1"
    and "scan_tools (tools q1) 0 (Job rpc) None = (Inr (Some tk), log)"
    and "Lock (RUnlock (q1\<lparr>calls := calls q1 @ log\<rparr>)) = Some q3"
  shows "AddTask q rpc =
    (case invoke Run Run_call
            (q3\<lparr>stack := Some (AList.update (UUID (Job rpc)) tk (entries (stack q3)))\<rparr>)
            (UUID (Job rpc)) of
       None \<Rightarrow>
         (Panicked, q3\<lparr>stack := Some (AList.update (UUID (Job rpc)) tk (entries (stack q3)))\<rparr>)
     | Some (Some e, q6) \<Rightarrow> (Failed (''Error starting task on the resource: '' @ e), q6)
     | Some (None, q6) \<Rightarrow>
         (case invoke Status Status_call q6 (UUID (Job rpc)) of
            None \<Rightarrow> (Panicked, q6)
          | Some (j, q7) \<Rightarrow> (Replied j, Unlock q7)))"
proof (cases "stack q3")
  case None
  then show ?thesis using assms
    by (simp add: AddTask_def Let_def entries_def cong: option.case_cong)
next
  case (Some al)
  then show ?thesis using assms
    by (simp add: AddTask_def Let_def entries_def cong: option.case_cong)
qed




subsection \<open>The paths of \<^verbatim>\<open>AddTask\<close>\<close>


lemma AddTask_started:
  assumes "Auth rpc = authToken q" and "mutex_free q"
    and "scan_tools (tools q) 0 (Job rpc) None = (Inr (Some tk), log)"
  shows "AddTask q rpc =
    (case Run tk of
       (Some e, tk1) \<Rightarrow>
         (Failed (''Error starting task on the resource: '' @ e),
          q\<lparr>writer := True,
            stack := Some (AList.update (UUID (Job rpc)) tk1 (entries (stack q))),
            calls := calls q @ log @ [Run_call (UUID (Job rpc))]\<rparr>)
     | (None, tk1) \<Rightarrow>
         (Replied (fst (Status tk1)),
          q\<lparr>stack := Some (AList.update (UUID (Job rpc)) (snd (Status tk1)) (entries (stack q))),
            calls := calls q @ log @ [Run_call (UUID (Job rpc)), Status_call (UUID (Job rpc))]\<rparr>))"
proof -
  let ?k = "UUID (Job rpc)"
  have rl: "RLock q = Some (q\<lparr>readers := readers q + 1\<rparr>)"
    using assms(2) by (simp add: RLock_def mutex_free_def)
  have sc: "scan_tools (tools (q\<lparr>readers := readers q + 1\<rparr>)) 0 (Job rpc) None = (Inr (Some tk), log)"
    using assms(3) by simp
  have lk: "Lock (RUnlock (q\<lparr>readers := readers q + 1\<rparr>\<lparr>calls := calls (q\<lparr>readers := readers q + 1\<rparr>) @ log\<rparr>))
      = Some (q\<lparr>calls := calls q @ log, writer := True\<rparr>)"
    using assms(2) by (simp add: Lock_def RUnlock_def mutex_free_def)
  note eq = AddTask_store [OF assms(1) rl sc lk]
  show ?thesis
    unfolding eq using assms(2)
    by (simp add: invoke_Some index_update Unlock_def mutex_free_def entries_def split: prod.splits option.splits)
qed




subsection \<open>Registration\<close>

lemma AddTool_hardware:
  assumes "hardware q = Some al"
  shows "AddTool q tooler fresh =
     Some (q\<lparr>hardware := Some (AList.update (Requirements tooler) True al),
            tools := tools q @ [tooler\<lparr>Tooler_UUID := fresh\<rparr>]\<rparr>)"
  using assms by (simp add: AddTool_def assign_def)

lemma AddTools_eq:
  "hardware q = Some al \<Longrightarrow>
   AddTools q regs =
     Some (q\<lparr>hardware := Some (tags_of regs al),
            tools := tools q @ map (\<lambda>reg. (fst reg)\<lparr>Tooler_UUID := snd reg\<rparr>) regs\<rparr>)"
proof (induction regs arbitrary: q al)
  case Nil
  then show ?case by (simp add: tags_of_def)
next
  case (Cons reg regs)
  obtain tooler fresh where reg: "reg = (tooler, fresh)" by (cases reg)
  let ?q = "q\<lparr>hardware := Some (AList.update (Requirements tooler) True al),
              tools := tools q @ [tooler\<lparr>Tooler_UUID := fresh\<rparr>]\<rparr>"
  have step: "AddTool q tooler fresh = Some ?q"
    using Cons.prems by (rule AddTool_hardware)
  have "hardware ?q = Some (AList.update (Requirements tooler) True al)" by simp
  from Cons.IH [OF this] show ?case
    using step reg by (simp add: tags_of_def)
qed

lemma tags_of_keys: "fst ` set (tags_of regs al) = fst ` set al \<union> Requirements ` fst ` set regs"
  unfolding tags_of_def by (induction regs arbitrary: al) (auto simp: dom_update)

lemma tags_of_distinct: "distinct (map fst al) \<Longrightarrow> distinct (map fst (tags_of regs al))"
  unfolding tags_of_def by (induction regs arbitrary: al) (simp_all add: distinct_update)

lemma tags_of_True:
  "ran (map_of al) \<subseteq> {True} \<Longrightarrow> ran (map_of (tags_of regs al)) \<subseteq> {True}"
  unfolding tags_of_def
proof (induction regs arbitrary: al)
  case Nil
  then show ?case by simp
next
  case (Cons reg regs)
  have "ran (map_of (AList.update (Requirements (fst reg)) True al)) \<subseteq> {True}"
    using Cons.prems by (auto simp: update_conv' ran_def split: if_splits)
  from Cons.IH [OF this] show ?case by simp
qed

subsection \<open>Procedures that skip a check\<close>

lemma absent_task_panics:
  assumes "Auth rpc = authToken q" and "mutex_free q"
    and "index (stack q) (UUID (Job rpc)) = None"
  shows "TaskStatus q rpc = (Panicked, q\<lparr>writer := True\<rparr>)"
    and "TaskPause q rpc = (Panicked, q\<lparr>writer := True\<rparr>)"
    and "TaskRun q rpc = (Panicked, q\<lparr>writer := True\<rparr>)"
    and "TaskQuit q rpc = (Panicked, q\<lparr>writer := True\<rparr>)"
  using assms
  by (simp_all add: TaskStatus_def TaskPause_def TaskRun_def TaskQuit_def Lock_Some invoke_None)

lemma ResourceTools_any_token:
  "writer q = False \<Longrightarrow> ResourceTools q rpc = (Replied (map describe (tools q)), q)"
  by (simp add: ResourceTools_def RLock_def RUnlock_def)

subsection \<open>The example nodes\<close>

lemmas demo_defs = node_def demo_regs_def demo_node_def demo_tool_def demo_job_def demo_call_def
  NewResourceQueue_def AddTool_def assign_def

lemma demo_node_fields:
  "stack demo_node = Some []" "map Tooler_UUID (tools demo_node) = [''T1'', ''T2'', ''T3'']"
  "readers demo_node = 0" "writer demo_node = False" "authToken demo_node = ''secret''"
  "hardware demo_node = Some [(''gpu'', True), (''cpu'', True)]" "calls demo_node = []"
  by (simp_all add: demo_defs)

lemma demo_node_free: "mutex_free demo_node"
  by (simp add: mutex_free_def demo_node_fields)

lemma demo_scan_T2:
  "scan_tools (tools demo_node) 0 (demo_job ''J2'' ''T2'') None =
     (Inr (Some (demo_task None (Some ''cannot pause'')
        ((demo_job ''J2'' ''T2'')\<lparr>Job_Output := [(''tool'', ''john'')]\<rparr>))), [NewTask_call 1])"
  by (simp add: demo_defs)

lemma busy_node_fields:
  "stack busy_node = Some [(''J2'', demo_task None (Some ''cannot pause'')
        ((demo_job ''J2'' ''T2'')\<lparr>Job_Output := [(''tool'', ''john'')], Job_Status := ''running''\<rparr>))]"
  "readers busy_node = 0" "writer busy_node = False" "authToken busy_node = ''secret''"
  "calls busy_node = [NewTask_call 1, Run_call ''J2'', Status_call ''J2'']"
  "tools busy_node = tools demo_node"
proof -
  have auth: "Auth (demo_call ''secret'' ''J2'' ''T2'') = authToken demo_node"
    by (simp add: demo_node_fields demo_call_def)
  have sc: "scan_tools (tools demo_node) 0 (Job (demo_call ''secret'' ''J2'' ''T2'')) None =
     (Inr (Some (demo_task None (Some ''cannot pause'')
        ((demo_job ''J2'' ''T2'')\<lparr>Job_Output := [(''tool'', ''john'')]\<rparr>))), [NewTask_call 1])"
    using demo_scan_T2 by (simp add: demo_call_def)
  note eq = AddTask_started [OF auth demo_node_free sc]
  show "stack busy_node = Some [(''J2'', demo_task None (Some ''cannot pause'')
        ((demo_job ''J2'' ''T2'')\<lparr>Job_Output := [(''tool'', ''john'')], Job_Status := ''running''\<rparr>))]"
    "readers busy_node = 0" "writer busy_node = False" "authToken busy_node = ''secret''"
    "calls busy_node = [NewTask_call 1, Run_call ''J2'', Status_call ''J2'']"
    "tools busy_node = tools demo_node"
    unfolding busy_node_def eq
    by (simp_all add: demo_node_fields entries_def demo_call_def demo_job_def)
qed

lemma demo_scan_T3:
  "scan_tools (tools demo_node) 0 (Job (demo_call ''secret'' ''J3'' ''T3'')) None =
     (Inr (Some (demo_task (Some ''no device'') None
        ((demo_job ''J3'' ''T3'')\<lparr>Job_Output := [(''tool'', ''oclhashcat'')]\<rparr>))), [NewTask_call 2])"
  by (simp add: demo_defs)



section \<open>The claims\<close>

subsection \<open>Claim C1\<close>

text \<open>
  Claim C1. A per-task procedure (\<^verbatim>\<open>TaskStatus\<close>, \<^verbatim>\<open>TaskPause\<close>, \<^verbatim>\<open>TaskRun\<close>, \<^verbatim>\<open>TaskQuit\<close>)
  called with the right token and an identifier that is not in the store should fail with
  a No-Such-Task error, before it uses the missing entry. The source builds that error and
  drops it, and goes on to call a method on the \<^verbatim>\<open>nil\<close> entry. On \<open>demo_node\<close>, which
  stores no task, each of the four procedures called for the identifier \<open>J9\<close> panics while
  it holds the write lock; none of them returns an error. (By \<open>absent_task_panics\<close> the
  same happens on every queue whose mutex is free.)
\<close>

theorem per_task_absent_identifier_panics:
  "Auth (demo_call ''secret'' ''J9'' []) = authToken demo_node
   \<and> index (stack demo_node) (UUID (Job (demo_call ''secret'' ''J9'' []))) = None
   \<and> TaskStatus demo_node (demo_call ''secret'' ''J9'' []) = (Panicked, demo_node\<lparr>writer := True\<rparr>)
   \<and> TaskPause demo_node (demo_call ''secret'' ''J9'' []) = (Panicked, demo_node\<lparr>writer := True\<rparr>)
   \<and> TaskRun demo_node (demo_call ''secret'' ''J9'' []) = (Panicked, demo_node\<lparr>writer := True\<rparr>)
   \<and> TaskQuit demo_node (demo_call ''secret'' ''J9'' []) = (Panicked, demo_node\<lparr>writer := True\<rparr>)"
proof -
  have h1: "Auth (demo_call ''secret'' ''J9'' []) = authToken demo_node"
    by (simp add: demo_node_fields demo_call_def)
  have h3: "index (stack demo_node) (UUID (Job (demo_call ''secret'' ''J9'' []))) = None"
    by (simp add: demo_node_fields index_def entries_def)
  show ?thesis
    using h1 h3 absent_task_panics [OF h1 demo_node_free h3] by simp
qed

subsection \<open>Claim C2\<close>

text \<open>
  Claim C2. Every remote procedure should answer a request whose token differs from the
  configured secret with the authentication failure. \<^verbatim>\<open>ResourceTools\<close> is the one procedure
  without the token check that the other seven start with: called on \<open>demo_node\<close> with the
  token \<open>wrong\<close> it replies with the descriptors of the three registered tools. (By
  \<open>ResourceTools_any_token\<close> it replies so for every token.)
\<close>

theorem ResourceTools_answers_wrong_token:
  "(Auth (demo_call ''wrong'' [] []) = authToken demo_node) = False
   \<and> ResourceTools demo_node (demo_call ''wrong'' [] []) =
       (Replied
          [\<lparr>Tool_Name = ''hashcat'', Tool_Type = ''demo'', Tool_Version = ''1'', Tool_UUID = ''T1'',
            Tool_Parameters = [], Tool_Requirements = ''gpu''\<rparr>,
           \<lparr>Tool_Name = ''john'', Tool_Type = ''demo'', Tool_Version = ''1'', Tool_UUID = ''T2'',
            Tool_Parameters = [], Tool_Requirements = ''cpu''\<rparr>,
           \<lparr>Tool_Name = ''oclhashcat'', Tool_Type = ''demo'', Tool_Version = ''1'', Tool_UUID = ''T3'',
            Tool_Parameters = [], Tool_Requirements = ''gpu''\<rparr>],
        demo_node)"
  by (simp add: ResourceTools_def RLock_def RUnlock_def describe_def demo_defs)

subsection \<open>Claim C3\<close>



subsection \<open>Claim C4\<close>

text \<open>
  Claim C4. \<^verbatim>\<open>TaskPause\<close>, called with the right token for a stored task whose \<^verbatim>\<open>Pause\<close>
  returns an error, calls \<^verbatim>\<open>Quit\<close> on that task and returns the error of \<^verbatim>\<open>Pause\<close> unchanged.
  The calls made are \<^verbatim>\<open>Pause\<close> and then \<^verbatim>\<open>Quit\<close>; the task stays in the store, in the state
  in which \<^verbatim>\<open>Quit\<close> left it, and the Job that \<^verbatim>\<open>Quit\<close> returns is not passed on. The write
  lock is still held when the procedure returns. The mutex is free when the call starts.
\<close>

theorem TaskPause_failure_quits_task:
  assumes "Auth rpc = authToken q" and "mutex_free q"
    and "index (stack q) (UUID (Job rpc)) = Some t"
    and "Pause t = (Some e, t1)"
  shows "TaskPause q rpc =
     (Failed e,
      q\<lparr>writer := True,
        stack := Some (AList.update (UUID (Job rpc)) (snd (Quit t1)) (entries (stack q))),
        calls := calls q @ [Pause_call (UUID (Job rpc)), Quit_call (UUID (Job rpc))]\<rparr>)"
  using assms by (simp add: TaskPause_def Lock_Some invoke_Some index_update entries_def)

text \<open>On \<open>busy_node\<close>, whose task \<open>J2\<close> cannot pause:\<close>

theorem TaskPause_failure_quits_task_witness:
  "Auth (demo_call ''secret'' ''J2'' []) = authToken busy_node
   \<and> mutex_free busy_node
   \<and> fst (TaskPause busy_node (demo_call ''secret'' ''J2'' [])) = Failed ''cannot pause''
   \<and> calls (snd (TaskPause busy_node (demo_call ''secret'' ''J2'' []))) =
       [NewTask_call 1, Run_call ''J2'', Status_call ''J2'', Pause_call ''J2'', Quit_call ''J2'']
   \<and> map_option (Job_Status \<circ> fst \<circ> Status)
        (index (stack (snd (TaskPause busy_node (demo_call ''secret'' ''J2'' [])))) ''J2'') =
       Some ''quit''"
proof -
  let ?t = "demo_task None (Some ''cannot pause'')
        ((demo_job ''J2'' ''T2'')\<lparr>Job_Output := [(''tool'', ''john'')], Job_Status := ''running''\<rparr>)"
  have h1: "Auth (demo_call ''secret'' ''J2'' []) = authToken busy_node"
    by (simp add: busy_node_fields demo_call_def)
  have h2: "mutex_free busy_node"
    by (simp add: mutex_free_def busy_node_fields)
  have h3: "index (stack busy_node) (UUID (Job (demo_call ''secret'' ''J2'' []))) = Some ?t"
    by (simp add: busy_node_fields index_def entries_def demo_call_def demo_job_def)
  have h4: "Pause ?t = (Some ''cannot pause'', snd (Pause ?t))"
    by simp
  show ?thesis
    using h1 h2 TaskPause_failure_quits_task [OF h1 h2 h3 h4]
    by (simp add: busy_node_fields index_def entries_def demo_call_def demo_job_def)
qed

subsection \<open>Claim C5\<close>



subsection \<open>Claim C6\<close>

text \<open>
  Claim C6. When \<^verbatim>\<open>AddTask\<close>, called with the right token while the mutex is free, gets a
  task from its scan of the registry and \<^verbatim>\<open>Run\<close> on that task returns an error, it returns
  the message \<^verbatim>\<open>"Error starting task on the resource: "\<close> followed by the message of that
  error, and the task stays in the store under the Job's identifier, in the state in which
  \<^verbatim>\<open>Run\<close> left it. The write lock is still held when the procedure returns.
\<close>

theorem AddTask_start_failure_keeps_task:
  assumes "Auth rpc = authToken q" and "mutex_free q"
    and "scan_tools (tools q) 0 (Job rpc) None = (Inr (Some tk), log)"
    and "Run tk = (Some e, tk1)"
  shows "AddTask q rpc =
           (Failed (''Error starting task on the resource: '' @ e),
            q\<lparr>writer := True,
              stack := Some (AList.update (UUID (Job rpc)) tk1 (entries (stack q))),
              calls := calls q @ log @ [Run_call (UUID (Job rpc))]\<rparr>)
         \<and> index (stack (snd (AddTask q rpc))) (UUID (Job rpc)) = Some tk1"
  using assms(4) by (simp add: AddTask_started [OF assms(1-3)] index_update)

text \<open>On \<open>demo_node\<close>, for the tool \<open>T3\<close>, whose tasks do not start:\<close>

theorem AddTask_start_failure_keeps_task_witness:
  "Auth (demo_call ''secret'' ''J3'' ''T3'') = authToken demo_node
   \<and> mutex_free demo_node
   \<and> fst (AddTask demo_node (demo_call ''secret'' ''J3'' ''T3'')) =
       Failed ''Error starting task on the resource: no device''
   \<and> map_option (Job_Output \<circ> fst \<circ> Status)
        (index (stack (snd (AddTask demo_node (demo_call ''secret'' ''J3'' ''T3'')))) ''J3'') =
       Some [(''tool'', ''oclhashcat'')]"
proof -
  let ?tk = "demo_task (Some ''no device'') None
        ((demo_job ''J3'' ''T3'')\<lparr>Job_Output := [(''tool'', ''oclhashcat'')]\<rparr>)"
  have h1: "Auth (demo_call ''secret'' ''J3'' ''T3'') = authToken demo_node"
    by (simp add: demo_node_fields demo_call_def)
  have h4: "Run ?tk = (Some ''no device'', snd (Run ?tk))"
    by simp
  show ?thesis
    using h1 demo_node_free AddTask_start_failure_keeps_task [OF h1 demo_node_free demo_scan_T3 h4]
    by (simp add: demo_call_def demo_job_def index_update)
qed

subsection \<open>Claim C7\<close>

text \<open>
  Claim C7. An authentication failure is the error that a procedure returns when the
  token of the request differs from \<^verbatim>\<open>q.authToken\<close>. Each of the seven procedures that check
  the token returns it before it takes a lock, calls a collaborator or writes a field: the
  queue after the call, with its store, its registry and its capability table, is the
  queue before it. \<^verbatim>\<open>ResourceTools\<close> checks no token and returns no error at all.
\<close>

theorem auth_failure_touches_nothing:
  assumes "Auth rpc \<noteq> authToken q"
  shows "ResourceHardware q rpc = (Failed ERROR_AUTH, q)
       \<and> AddTask q rpc = (Failed ERROR_AUTH, q)
       \<and> TaskStatus q rpc = (Failed ERROR_AUTH, q)
       \<and> TaskPause q rpc = (Failed ERROR_AUTH, q)
       \<and> TaskRun q rpc = (Failed ERROR_AUTH, q)
       \<and> TaskQuit q rpc = (Failed ERROR_AUTH, q)
       \<and> AllTaskStatus q rpc = (Failed ERROR_AUTH, q)
       \<and> (\<forall>e. fst (ResourceTools q rpc) \<noteq> Failed e)"
  using assms
  by (simp add: ResourceHardware_def AddTask_def TaskStatus_def TaskPause_def TaskRun_def
      TaskQuit_def AllTaskStatus_def ResourceTools_def split: option.splits)

text \<open>On \<open>busy_node\<close>, with the token \<open>wrong\<close>:\<close>

theorem auth_failure_touches_nothing_witness:
  "(Auth (demo_call ''wrong'' ''J2'' ''T2'') = authToken busy_node) = False
   \<and> ResourceHardware busy_node (demo_call ''wrong'' ''J2'' ''T2'') = (Failed ERROR_AUTH, busy_node)
   \<and> AddTask busy_node (demo_call ''wrong'' ''J2'' ''T2'') = (Failed ERROR_AUTH, busy_node)
   \<and> TaskStatus busy_node (demo_call ''wrong'' ''J2'' ''T2'') = (Failed ERROR_AUTH, busy_node)
   \<and> TaskPause busy_node (demo_call ''wrong'' ''J2'' ''T2'') = (Failed ERROR_AUTH, busy_node)
   \<and> TaskRun busy_node (demo_call ''wrong'' ''J2'' ''T2'') = (Failed ERROR_AUTH, busy_node)
   \<and> TaskQuit busy_node (demo_call ''wrong'' ''J2'' ''T2'') = (Failed ERROR_AUTH, busy_node)
   \<and> AllTaskStatus busy_node (demo_call ''wrong'' ''J2'' ''T2'') = (Failed ERROR_AUTH, busy_node)"
proof -
  have h: "Auth (demo_call ''wrong'' ''J2'' ''T2'') \<noteq> authToken busy_node"
    by (simp add: busy_node_fields demo_call_def)
  show ?thesis
    using h auth_failure_touches_nothing [OF h] by simp
qed

subsection \<open>Claim C8\<close>

text \<open>
  Claim C8. After any sequence of registrations on a new queue, every registration has
  succeeded and \<^verbatim>\<open>ResourceHardware\<close>, called with the queue's token, replies with the
  capability table of the queue. The keys of that table are exactly the requirement tags
  of the registered tools, each key occurs once, and each is mapped to \<^verbatim>\<open>true\<close>. Registering
  one more tool whose tag is already a key leaves the table as it is.
\<close>

theorem ResourceHardware_union_of_tags:
  "\<exists>q. AddTools (NewResourceQueue token) regs = Some q
      \<and> ResourceHardware q \<lparr>Auth = token, Job = j\<rparr> = (Replied (hardware q), q)
      \<and> keys (hardware q) = Requirements ` fst ` set regs
      \<and> keys (hardware q) = Requirements ` set (tools q)
      \<and> distinct (map fst (entries (hardware q)))
      \<and> (\<forall>tag\<in>keys (hardware q). index (hardware q) tag = Some True)
      \<and> (\<forall>tooler fresh. Requirements tooler \<in> keys (hardware q) \<longrightarrow>
            (\<exists>q'. AddTool q tooler fresh = Some q' \<and> hardware q' = hardware q))"
proof -
  let ?q0 = "NewResourceQueue token"
  let ?al = "tags_of regs []"
  define q where "q = ?q0\<lparr>hardware := Some ?al,
      tools := tools ?q0 @ map (\<lambda>reg. (fst reg)\<lparr>Tooler_UUID := snd reg\<rparr>) regs\<rparr>"
  have h0: "hardware ?q0 = Some []" by (simp add: NewResourceQueue_def)
  have reg: "AddTools ?q0 regs = Some q"
    unfolding q_def by (rule AddTools_eq [OF h0])
  have hw: "hardware q = Some ?al" by (simp add: q_def)
  have rh: "ResourceHardware q \<lparr>Auth = token, Job = j\<rparr> = (Replied (hardware q), q)"
    by (simp add: q_def ResourceHardware_def RLock_def RUnlock_def NewResourceQueue_def)
  have k: "keys (hardware q) = Requirements ` fst ` set regs"
    by (simp add: hw keys_def entries_def tags_of_keys)
  have "map Requirements (tools q) = map (Requirements \<circ> fst) regs"
    by (simp add: q_def NewResourceQueue_def)
  then have "set (map Requirements (tools q)) = set (map (Requirements \<circ> fst) regs)"
    by simp
  then have tl: "Requirements ` set (tools q) = Requirements ` fst ` set regs"
    by (simp add: image_comp)
  have di: "distinct (map fst (entries (hardware q)))"
    by (simp add: hw entries_def tags_of_distinct)
  have "ran (map_of ?al) \<subseteq> {True}"
    by (rule tags_of_True) simp
  then have tr': "map_of ?al tag = Some True" if "tag \<in> fst ` set ?al" for tag
    using that by (metis (full_types) domD dom_map_of_conv_image_fst ranI singletonD subsetD)
  have tr: "\<forall>tag\<in>keys (hardware q). index (hardware q) tag = Some True"
    using tr' by (simp add: hw keys_def entries_def index_def)
  have idem: "\<exists>q'. AddTool q tooler fresh = Some q' \<and> hardware q' = hardware q"
    if "Requirements tooler \<in> keys (hardware q)" for tooler fresh
  proof -
    from that have "map_of ?al (Requirements tooler) = Some True"
      using tr by (simp add: hw index_def entries_def)
    then have "AList.update (Requirements tooler) True ?al = ?al"
      by (rule update_triv)
    then show ?thesis
      by (simp add: AddTool_hardware [OF hw] hw)
  qed
  show ?thesis
    using reg rh k tl di tr idem by (intro exI [of _ q]) simp
qed

text \<open>
  On \<open>demo_node\<close>, where two tools require \<open>gpu\<close> and one \<open>cpu\<close>, and for a fourth tool
  requiring \<open>gpu\<close>:
\<close>

theorem ResourceHardware_union_of_tags_witness:
  "map_option hardware (AddTools (NewResourceQueue ''secret'') demo_regs) =
     Some (Some [(''gpu'', True), (''cpu'', True)])
   \<and> fst (ResourceHardware demo_node (demo_call ''secret'' [] [])) =
       Replied (Some [(''gpu'', True), (''cpu'', True)])
   \<and> index (hardware demo_node) ''gpu'' = Some True
   \<and> map_option hardware (AddTool demo_node (demo_tool ''hashcat'' [] ''gpu'' None None) ''T4'') =
       Some (hardware demo_node)"
proof -
  from ResourceHardware_union_of_tags [of "''secret''" demo_regs "demo_job [] []"] obtain q where
    q: "AddTools (NewResourceQueue ''secret'') demo_regs = Some q"
      "ResourceHardware q \<lparr>Auth = ''secret'', Job = demo_job [] []\<rparr> = (Replied (hardware q), q)"
      "\<forall>tag\<in>keys (hardware q). index (hardware q) tag = Some True"
      "\<forall>tooler fresh. Requirements tooler \<in> keys (hardware q) \<longrightarrow>
            (\<exists>q'. AddTool q tooler fresh = Some q' \<and> hardware q' = hardware q)"
    by (elim exE conjE) (rule that)
  have n: "q = demo_node"
    using q(1) by (simp add: demo_node_def node_def)
  have g: "''gpu'' \<in> keys (hardware demo_node)"
    by (simp add: keys_def entries_def demo_node_fields)
  have r: "Requirements (demo_tool ''hashcat'' [] ''gpu'' None None) \<in> keys (hardware demo_node)"
    using g by (simp add: demo_tool_def)
  show ?thesis
    using q(1,2) q(3) [rule_format, unfolded n, OF g] q(4) [rule_format, unfolded n, OF r]
    by (auto simp: n demo_node_fields demo_call_def)
qed

subsection \<open>Claim C9\<close>




subsection \<open>Claim C10\<close>



end
